theory Spec2Isabelle
  imports Complex_Main
begin

section \<open>MERSCOPE transfer: data model\<close>

text \<open>
  The program \<^verbatim>\<open>transfer/bin/merscope_transfer.py\<close> keeps its run report in three
  module-level lists (\<^verbatim>\<open>ERRORS\<close>, \<^verbatim>\<open>DELETED\<close>, \<^verbatim>\<open>TRANSFERRED\<close>), reads a
  configuration dictionary \<^verbatim>\<open>CONFIG\<close> and the parsed flags \<^verbatim>\<open>ARG\<close>, and acts on the
  file system through \<^verbatim>\<open>os\<close>, \<^verbatim>\<open>shutil\<close> and \<^verbatim>\<open>time\<close>. The model passes the
  mutable part around as a record; the library calls are a record of functions on an
  abstract world \<open>'w\<close>, so that every theorem holds for every behaviour of the file
  system. Calls to \<^verbatim>\<open>LOGGER\<close> only write to the console and are left out.
\<close>

text \<open>
  A caught exception is used by the program through \<^verbatim>\<open>type(err).__name__\<close> and
  \<^verbatim>\<open>err.args\<close> only; the second field is the text that \<^verbatim>\<open>%s\<close> gives for the
  argument tuple.
\<close>

datatype exn = Exn (exn_name: string) (exn_args: string)

record config =
  source :: string
  target :: string
  secondary :: string
  sender :: string
  receivers :: "string list"
  mail_server :: string
  minimum_age :: "int option"

text \<open>The two flags that steer the run; \<^verbatim>\<open>--verbose\<close> and \<^verbatim>\<open>--debug\<close> set the log level only.\<close>

record arg =
  TRANSFER :: bool
  DELETE :: bool

text \<open>
  The library calls. Reading calls are functions of the world; changing calls return the
  exception they raised, if any, and the world they leave behind. Times are seconds since
  the epoch; every finite float is a rational number, and rounding in the one subtraction
  the program makes is not modelled. \<open>getmtime\<close> is only ever called on a path for which
  \<open>path_isfile\<close> has just answered yes in the same world. \<open>send_email\<close> stands for the
  program's wrapper of the same name, whose body consists of SMTP and MIME library calls;
  its arguments are mail text, sender, receivers and subject.
\<close>

record 'w os =
  path_exists :: "string \<Rightarrow> 'w \<Rightarrow> bool"
  path_isfile :: "string \<Rightarrow> 'w \<Rightarrow> bool"
  getmtime :: "string \<Rightarrow> 'w \<Rightarrow> rat"
  time_now :: "'w \<Rightarrow> rat"
  copytree :: "string \<Rightarrow> string \<Rightarrow> 'w \<Rightarrow> exn option \<times> 'w"
  rmtree :: "string \<Rightarrow> 'w \<Rightarrow> exn option \<times> 'w"
  rmdir :: "string \<Rightarrow> 'w \<Rightarrow> exn option \<times> 'w"
  listdir :: "string \<Rightarrow> 'w \<Rightarrow> exn + string list"
  send_email :: "string \<Rightarrow> string \<Rightarrow> string list \<Rightarrow> string \<Rightarrow> 'w \<Rightarrow> exn option \<times> 'w"

text \<open>
  \<open>calls\<close> is a history variable, not a program variable: it lists, in order, the
  world-changing library calls issued, each with the exception it raised, and the entries
  into \<^verbatim>\<open>delete_experiment\<close>. It lets theorems say that a call was or was not made.
\<close>

datatype call =
    Copytree string string "exn option"
  | Rmtree string "exn option"
  | Rmdir string "exn option"
  | Delete_experiment string

record 'w state =
  world :: 'w
  CONFIG :: config
  ERRORS :: "string list"
  DELETED :: "string list"
  TRANSFERRED :: "string list"
  calls :: "call list"

definition NL :: string where
  "NL = [CHR 0x0A]"

text \<open>\<^verbatim>\<open>TEMPLATE % (type(err).__name__, err.args)\<close>\<close>

definition TEMPLATE :: "exn \<Rightarrow> string" where
  "TEMPLATE err =
     ''An exception of type '' @ exn_name err @ '' occurred. Arguments:'' @ NL @ exn_args err"

definition SUFFIX :: "string list" where
  "SUFFIX = [''analysis'', ''output'', ''raw_data'']"

text \<open>
  The path \<^verbatim>\<open>f"{base}/merfish_{sfx}/{exp}"\<close>, written out three times in the program.
  The program's variable \<^verbatim>\<open>exp\<close> is \<open>exper\<close> here, \<open>exp\<close> being the exponential function.
\<close>

definition merfish_path :: "string \<Rightarrow> string \<Rightarrow> string \<Rightarrow> string" where
  "merfish_path base sfx exper = base @ ''/merfish_'' @ sfx @ ''/'' @ exper"

section \<open>The completeness checker\<close>

text \<open>Python's \<^verbatim>\<open>int\<close> on a float cuts off the fraction, towards zero.\<close>

definition py_int :: "rat \<Rightarrow> int" where
  "py_int q = (if 0 \<le> q then \<lfloor>q\<rfloor> else \<lceil>q\<rceil>)"

definition sentinel_path :: "config \<Rightarrow> string \<Rightarrow> string" where
  "sentinel_path cfg exper = source cfg @ ''/merfish_raw_data/'' @ exper @ ''/MERLIN_FINISHED''"

text \<open>
  \<^verbatim>\<open>experiment_complete\<close> assigns \<^verbatim>\<open>CONFIG['minimum_age'] = 5 * 60\<close> before it reads the
  entry back, so the value read is the one just stored.
\<close>

definition experiment_complete :: "'w os \<Rightarrow> string \<Rightarrow> 'w state \<Rightarrow> bool \<times> 'w state" where
  "experiment_complete os exper s =
     (let sentinel = sentinel_path (CONFIG s) exper in
      if \<not> path_isfile os sentinel (world s) then (False, s)
      else
        let modtime = getmtime os sentinel (world s);
            s1 = s\<lparr>CONFIG := (CONFIG s)\<lparr>minimum_age := Some (5 * 60)\<rparr>\<rparr>;
            age = py_int (time_now os (world s1) - modtime)
        in if age \<le> the (minimum_age (CONFIG s1)) then (False, s1) else (True, s1))"

section \<open>The deletion engine\<close>

text \<open>
  Line 129 of the program reads \<^verbatim>\<open>ERROR.append(...)\<close>; no name \<^verbatim>\<open>ERROR\<close> is bound
  anywhere, so reaching that line raises this exception, which nothing catches.
\<close>

definition NameError_ERROR :: exn where
  "NameError_ERROR =
     Exn ''NameError''
       (''('' @ [CHR 0x22] @ ''name '' @ [CHR 0x27] @ ''ERROR'' @ [CHR 0x27] @
        '' is not defined'' @ [CHR 0x22] @ '',)'')"

text \<open>
  \<^verbatim>\<open>delete_directory\<close> returns a truth value or leaves by the uncaught exception
  (\<open>Inl\<close>). Exceptions of \<^verbatim>\<open>shutil.rmtree\<close> and \<^verbatim>\<open>os.rmdir\<close> are caught by the
  program's \<^verbatim>\<open>except Exception\<close>.
\<close>

definition delete_directory ::
    "'w os \<Rightarrow> arg \<Rightarrow> string \<Rightarrow> 'w state \<Rightarrow> (exn + bool) \<times> 'w state" where
  "delete_directory os arg base_dir s =
     (if DELETE arg then
        (case rmtree os base_dir (world s) of
           (Some err, w1) \<Rightarrow>
             (Inr False,
              s\<lparr>world := w1,
                ERRORS := ERRORS s @ [''Could not rmtree delete '' @ base_dir @ NL @ TEMPLATE err],
                calls := calls s @ [Rmtree base_dir (Some err)]\<rparr>)
         | (None, w1) \<Rightarrow>
             let s1 = s\<lparr>world := w1, calls := calls s @ [Rmtree base_dir None]\<rparr>;
                 s2 = (if path_exists os base_dir (world s1) then
                         (case rmdir os base_dir (world s1) of
                            (Some err, w2) \<Rightarrow>
                              s1\<lparr>world := w2,
                                 ERRORS := ERRORS s1 @
                                   [''Could not rmdir delete '' @ base_dir @ NL @ TEMPLATE err],
                                 calls := calls s1 @ [Rmdir base_dir (Some err)]\<rparr>
                          | (None, w2) \<Rightarrow>
                              s1\<lparr>world := w2, calls := calls s1 @ [Rmdir base_dir None]\<rparr>)
                       else s1)
             in if path_exists os base_dir (world s2) then (Inl NameError_ERROR, s2)
                else (Inr True, s2\<lparr>DELETED := DELETED s2 @ [base_dir]\<rparr>))
      else (Inr True, s\<lparr>DELETED := DELETED s @ [base_dir]\<rparr>))"

text \<open>
  The loop \<^verbatim>\<open>for sfx in SUFFIX\<close> of \<^verbatim>\<open>delete_experiment\<close>; the truth value returned
  is \<^verbatim>\<open>delete_done\<close> after the loop.
\<close>

fun delete_categories ::
    "'w os \<Rightarrow> arg \<Rightarrow> string \<Rightarrow> string list \<Rightarrow> 'w state \<Rightarrow> (exn + bool) \<times> 'w state" where
  "delete_categories os arg exper [] s = (Inr True, s)"
| "delete_categories os arg exper (sfx # rest) s =
     (case delete_directory os arg (merfish_path (source (CONFIG s)) sfx exper) s of
        (Inl err, s1) \<Rightarrow> (Inl err, s1)
      | (Inr False, s1) \<Rightarrow> (Inr False, s1)
      | (Inr True, s1) \<Rightarrow> delete_categories os arg exper rest s1)"

definition incomplete_msg :: "string \<Rightarrow> string" where
  "incomplete_msg exper = ''Deletion for '' @ exper @ '' is incomplete''"

text \<open>A procedure returns \<open>None\<close>, or \<open>Some\<close> of the exception that left it uncaught.\<close>

definition delete_experiment ::
    "'w os \<Rightarrow> arg \<Rightarrow> string \<Rightarrow> 'w state \<Rightarrow> exn option \<times> 'w state" where
  "delete_experiment os arg exper s =
     (let s0 = s\<lparr>TRANSFERRED := TRANSFERRED s @ [exper],
                 calls := calls s @ [Delete_experiment exper]\<rparr>
      in case delete_categories os arg exper SUFFIX s0 of
           (Inl err, s1) \<Rightarrow> (Some err, s1)
         | (Inr delete_done, s1) \<Rightarrow>
             (case (if delete_done then
                      (let src = secondary (CONFIG s1) @ ''/'' @ exper in
                       if \<not> path_exists os src (world s1) then (Inr False, s1)
                       else delete_directory os arg src s1)
                    else (Inr False, s1)) of
                (Inl err, s2) \<Rightarrow> (Some err, s2)
              | (Inr delete_done2, s2) \<Rightarrow>
                  (None,
                   if \<not> delete_done2 then s2\<lparr>ERRORS := ERRORS s2 @ [incomplete_msg exper]\<rparr>
                   else s2)))"

section \<open>The orchestrator\<close>

text \<open>The loop of lines 172 to 174: it has no \<^verbatim>\<open>break\<close> and looks at every category.\<close>

fun check_missing :: "'w os \<Rightarrow> string \<Rightarrow> 'w state \<Rightarrow> string list \<Rightarrow> bool \<Rightarrow> bool" where
  "check_missing os exper s [] missing = missing"
| "check_missing os exper s (sfx # rest) missing =
     check_missing os exper s rest
       (if \<not> path_exists os (merfish_path (source (CONFIG s)) sfx exper) (world s) then True
        else missing)"

text \<open>
  The copy loop of lines 183 to 195; the truth value returned is \<^verbatim>\<open>ok_to_delete\<close>.
  The error text repeats the experiment name after \<^verbatim>\<open>src\<close>, as the program does.
\<close>

fun copy_categories ::
    "'w os \<Rightarrow> arg \<Rightarrow> string \<Rightarrow> string list \<Rightarrow> 'w state \<Rightarrow> bool \<times> 'w state" where
  "copy_categories os arg exper [] s = (True, s)"
| "copy_categories os arg exper (sfx # rest) s =
     (let src = merfish_path (source (CONFIG s)) sfx exper;
          tgt = merfish_path (target (CONFIG s)) sfx exper
      in if \<not> TRANSFER arg then copy_categories os arg exper rest s
         else
           (case copytree os src tgt (world s) of
              (None, w1) \<Rightarrow>
                copy_categories os arg exper rest
                  (s\<lparr>world := w1, calls := calls s @ [Copytree src tgt None]\<rparr>)
            | (Some err, w1) \<Rightarrow>
                (False,
                 s\<lparr>world := w1,
                   ERRORS := ERRORS s @
                     [''Could not copy '' @ src @ ''/'' @ exper @ NL @ TEMPLATE err],
                   calls := calls s @ [Copytree src tgt (Some err)]\<rparr>)))"

definition handle_single_experiment ::
    "'w os \<Rightarrow> arg \<Rightarrow> string \<Rightarrow> 'w state \<Rightarrow> exn option \<times> 'w state" where
  "handle_single_experiment os arg exper s =
     (let tgt = secondary (CONFIG s) in
      if \<not> path_exists os tgt (world s) then
        (None, s\<lparr>ERRORS := ERRORS s @ [''Could not find target path '' @ tgt]\<rparr>)
      else if check_missing os exper s SUFFIX False then (None, s)
      else
        (case experiment_complete os exper s of
           (False, s1) \<Rightarrow> (None, s1)
         | (True, s1) \<Rightarrow>
             (case copy_categories os arg exper SUFFIX s1 of
                (True, s2) \<Rightarrow> delete_experiment os arg exper s2
              | (False, s2) \<Rightarrow> (None, s2))))"

section \<open>The driver\<close>

text \<open>How a run of \<^verbatim>\<open>process_experiments\<close> ends: it returns, it leaves through
  \<^verbatim>\<open>terminate_program\<close> with a message (exit status -1), or an exception escapes.\<close>

datatype outcome = Finished | Terminated string | Uncaught exn

fun join_nl :: "string list \<Rightarrow> string" where
  "join_nl [] = []"
| "join_nl [x] = x"
| "join_nl (x # y # ys) = x @ NL @ join_nl (y # ys)"

definition mail_text :: "arg \<Rightarrow> 'w state \<Rightarrow> string" where
  "mail_text arg s =
     (if TRANSFERRED s \<noteq> [] then
        ''The following experiments have been transferred:'' @ NL @
        (if \<not> TRANSFER arg then
           ''--- TRANSFER mode was not enabled - no files were transferred ---'' @ NL
         else []) @
        join_nl (TRANSFERRED s) @ NL @ NL
      else []) @
     (if DELETED s \<noteq> [] then
        ''The following directories have been deleted:'' @ NL @
        (if \<not> DELETE arg then
           ''--- DELETE mode was not enabled - no files were deleted ---'' @ NL
         else []) @
        join_nl (DELETED s) @ NL @ NL
      else []) @
     (if ERRORS s \<noteq> [] then
        ''The following errors have occurred:'' @ NL @ join_nl (ERRORS s)
      else [])"

definition email_results :: "'w os \<Rightarrow> arg \<Rightarrow> 'w state \<Rightarrow> outcome \<times> 'w state" where
  "email_results os arg s =
     (case send_email os (mail_text arg s) (sender (CONFIG s)) (receivers (CONFIG s))
             ''MERSCOPE experiments transferred'' (world s) of
        (None, w1) \<Rightarrow> (Finished, s\<lparr>world := w1\<rparr>)
      | (Some err, w1) \<Rightarrow> (Terminated (TEMPLATE err), s\<lparr>world := w1\<rparr>))"

text \<open>The loop \<^verbatim>\<open>for edir in dirs: handle_single_experiment(edir)\<close>; it has no handler.\<close>

fun handle_each ::
    "'w os \<Rightarrow> arg \<Rightarrow> string list \<Rightarrow> 'w state \<Rightarrow> exn option \<times> 'w state" where
  "handle_each os arg [] s = (None, s)"
| "handle_each os arg (edir # rest) s =
     (case handle_single_experiment os arg edir s of
        (Some err, s1) \<Rightarrow> (Some err, s1)
      | (None, s1) \<Rightarrow> handle_each os arg rest s1)"

definition process_experiments :: "'w os \<Rightarrow> arg \<Rightarrow> 'w state \<Rightarrow> outcome \<times> 'w state" where
  "process_experiments os arg s =
     (let sdir = source (CONFIG s) @ ''/merfish_output'' in
      case listdir os sdir (world s) of
        Inl err \<Rightarrow>
          (if exn_name err = ''FileNotFoundError'' then
             (Terminated (''Could not find source directory '' @ sdir), s)
           else (Terminated (TEMPLATE err), s))
      | Inr dirs \<Rightarrow>
          (case handle_each os arg dirs s of
             (Some err, s1) \<Rightarrow> (Uncaught err, s1)
           | (None, s1) \<Rightarrow>
               if TRANSFERRED s1 \<noteq> [] \<or> DELETED s1 \<noteq> [] \<or> ERRORS s1 \<noteq> [] then
                 email_results os arg s1
               else (Finished, s1)))"

section \<open>Reading the call history\<close>

fun is_copy :: "call \<Rightarrow> bool" where
  "is_copy (Copytree src tgt r) = True"
| "is_copy c = False"

fun is_removal :: "call \<Rightarrow> bool" where
  "is_removal (Rmtree p r) = True"
| "is_removal (Rmdir p r) = True"
| "is_removal c = False"

text \<open>The history entry of a category copy that returned without an exception.\<close>

definition copied :: "config \<Rightarrow> string \<Rightarrow> string \<Rightarrow> call" where
  "copied cfg exper sfx =
     Copytree (merfish_path (source cfg) sfx exper) (merfish_path (target cfg) sfx exper) None"

section \<open>A small concrete file system\<close>

text \<open>
  For evaluating the model at concrete inputs: a world lists the paths that exist, the
  regular files with their modification times, the clock, the entries that a listing
  returns, and the copy sources and the trees whose copy or removal raises. The
  parameter of \<open>toy_os\<close> lists the directories that a tree removal leaves in place
  without raising, and that \<^verbatim>\<open>os.rmdir\<close> then refuses to remove.
\<close>

record toy_world =
  present :: "string list"
  regular :: "(string \<times> rat) list"
  clock :: rat
  listing :: "string list"
  copy_fails :: "string list"
  rmtree_fails :: "string list"

definition toy_os :: "string list \<Rightarrow> toy_world os" where
  "toy_os lingering =
     \<lparr>path_exists = (\<lambda>p w. List.member (present w) p),
      path_isfile = (\<lambda>p w. map_of (regular w) p \<noteq> None),
      getmtime = (\<lambda>p w. case map_of (regular w) p of Some t \<Rightarrow> t | None \<Rightarrow> 0),
      time_now = clock,
      copytree = (\<lambda>src tgt w.
         if List.member (copy_fails w) src then (Some (Exn ''OSError'' ''(5, Input/output error)''), w)
         else (None, w\<lparr>present := tgt # present w\<rparr>)),
      rmtree = (\<lambda>p w.
         if List.member (rmtree_fails w) p then
           (Some (Exn ''PermissionError'' ''(13, Permission denied)''), w)
         else if List.member lingering p then (None, w)
         else (None, w\<lparr>present := removeAll p (present w)\<rparr>)),
      rmdir = (\<lambda>p w.
         if List.member lingering p then
           (Some (Exn ''OSError'' ''(39, Directory not empty)''), w)
         else (None, w\<lparr>present := removeAll p (present w)\<rparr>)),
      listdir = (\<lambda>p w.
         if List.member (present w) p then Inr (listing w)
         else Inl (Exn ''FileNotFoundError'' ''(2, No such file or directory)'')),
      send_email = (\<lambda>text from to subject w. (None, w))\<rparr>"

text \<open>
  Source root \<^verbatim>\<open>/s\<close>, target root \<^verbatim>\<open>/t\<close>, secondary root \<^verbatim>\<open>/b\<close>; the experiments
  \<^verbatim>\<open>E1\<close> and \<^verbatim>\<open>E2\<close> have all three category folders and a secondary copy, and their
  sentinels were written at time 0.
\<close>

definition toy_config :: config where
  "toy_config =
     \<lparr>source = ''/s'', target = ''/t'', secondary = ''/b'', sender = ''a@x'',
      receivers = [''b@x''], mail_server = ''mail'', minimum_age = None\<rparr>"

definition toy_paths :: "string list" where
  "toy_paths =
     [''/s'', ''/b'', ''/s/merfish_output'',
      ''/s/merfish_analysis/E1'', ''/s/merfish_output/E1'', ''/s/merfish_raw_data/E1'',
      ''/s/merfish_raw_data/E1/MERLIN_FINISHED'', ''/b/E1'',
      ''/s/merfish_analysis/E2'', ''/s/merfish_output/E2'', ''/s/merfish_raw_data/E2'',
      ''/s/merfish_raw_data/E2/MERLIN_FINISHED'', ''/b/E2'']"

definition toy_world0 :: toy_world where
  "toy_world0 =
     \<lparr>present = ''/t'' # toy_paths,
      regular = [(''/s/merfish_raw_data/E1/MERLIN_FINISHED'', 0),
                 (''/s/merfish_raw_data/E2/MERLIN_FINISHED'', 0)],
      clock = 600,
      listing = [''E1'', ''E2''],
      copy_fails = [], rmtree_fails = []\<rparr>"

definition toy_state :: "toy_world \<Rightarrow> toy_world state" where
  "toy_state w =
     \<lparr>world = w, CONFIG = toy_config, ERRORS = [], DELETED = [], TRANSFERRED = [], calls = []\<rparr>"

definition flags :: "bool \<Rightarrow> bool \<Rightarrow> arg" where
  "flags t d = \<lparr>TRANSFER = t, DELETE = d\<rparr>"

text \<open>Variants of the world: a sentinel 300.5 seconds old, and E1 without its raw-data folder.\<close>

definition toy_world_young :: toy_world where
  "toy_world_young = toy_world0\<lparr>clock := 601 / 2\<rparr>"

definition toy_world_missing :: toy_world where
  "toy_world_missing =
     toy_world0\<lparr>present := removeAll ''/s/merfish_raw_data/E1'' (present toy_world0)\<rparr>"

text \<open>A world in which copying the output folder of E1 raises.\<close>

definition toy_world_copy_fails :: toy_world where
  "toy_world_copy_fails = toy_world0\<lparr>copy_fails := [''/s/merfish_output/E1'']\<rparr>"


definition toy_world_no_secondary :: toy_world where
  "toy_world_no_secondary = toy_world0\<lparr>present := removeAll ''/b/E1'' (present toy_world0)\<rparr>"


definition toy_world_no_target :: toy_world where
  "toy_world_no_target = toy_world0\<lparr>present := toy_paths\<rparr>"

definition toy_world_no_secondary_root :: toy_world where
  "toy_world_no_secondary_root = toy_world0\<lparr>present := removeAll ''/b'' (present toy_world0)\<rparr>"

section \<open>What each function leaves unchanged\<close>

lemma check_missing_iff:
  "check_missing os exper s sfxs m \<longleftrightarrow>
     m \<or> (\<exists>sfx\<in>set sfxs.
            \<not> path_exists os (merfish_path (source (CONFIG s)) sfx exper) (world s))"
  by (induction sfxs arbitrary: m) auto

lemma py_int_gt_300: "300 < py_int q \<longleftrightarrow> 301 \<le> q"
  unfolding py_int_def by (auto simp: less_floor_iff less_ceiling_iff)

lemma experiment_complete_frame:
  "experiment_complete os exper s = (b, s1) \<Longrightarrow>
     world s1 = world s \<and> ERRORS s1 = ERRORS s \<and> DELETED s1 = DELETED s \<and>
     TRANSFERRED s1 = TRANSFERRED s \<and> calls s1 = calls s \<and>
     source (CONFIG s1) = source (CONFIG s) \<and> target (CONFIG s1) = target (CONFIG s) \<and>
     secondary (CONFIG s1) = secondary (CONFIG s)"
  by (auto simp: experiment_complete_def Let_def split: if_splits)

lemma copy_categories_no_transfer:
  "\<not> TRANSFER arg \<Longrightarrow> copy_categories os arg exper sfxs s = (True, s)"
  by (induction sfxs) simp_all

lemma copy_categories_True:
  "copy_categories os arg exper sfxs s = (True, s') \<Longrightarrow>
     ERRORS s' = ERRORS s \<and> DELETED s' = DELETED s \<and> TRANSFERRED s' = TRANSFERRED s \<and>
     CONFIG s' = CONFIG s \<and>
     calls s' = calls s @ (if TRANSFER arg then map (copied (CONFIG s) exper) sfxs else [])"
proof (induction sfxs arbitrary: s)
  case Nil
  then show ?case by simp
next
  case (Cons sfx rest)
  show ?case
  proof (cases "TRANSFER arg")
    case False
    with Cons.prems show ?thesis by (simp add: copy_categories_no_transfer)
  next
    case True
    obtain r w1 where c: "copytree os (merfish_path (source (CONFIG s)) sfx exper)
        (merfish_path (target (CONFIG s)) sfx exper) (world s) = (r, w1)"
      by (cases "copytree os (merfish_path (source (CONFIG s)) sfx exper)
        (merfish_path (target (CONFIG s)) sfx exper) (world s)")
    show ?thesis
    proof (cases r)
      case None
      with Cons.prems True c
      have "copy_categories os arg exper rest
              (s\<lparr>world := w1, calls := calls s @ [copied (CONFIG s) exper sfx]\<rparr>) = (True, s')"
        by (simp add: Let_def copied_def)
      from Cons.IH[OF this] True show ?thesis by simp
    next
      case (Some err)
      with Cons.prems True c show ?thesis by (simp add: Let_def)
    qed
  qed
qed

lemma copy_categories_False:
  "copy_categories os arg exper sfxs s = (False, s') \<Longrightarrow>
     TRANSFER arg \<and> DELETED s' = DELETED s \<and> TRANSFERRED s' = TRANSFERRED s \<and>
     CONFIG s' = CONFIG s \<and>
     (\<exists>pre sfx post err. sfxs = pre @ sfx # post \<and>
        calls s' = calls s @ map (copied (CONFIG s) exper) pre @
          [Copytree (merfish_path (source (CONFIG s)) sfx exper)
             (merfish_path (target (CONFIG s)) sfx exper) (Some err)] \<and>
        ERRORS s' = ERRORS s @
          [''Could not copy '' @ merfish_path (source (CONFIG s)) sfx exper @ ''/'' @ exper @
           NL @ TEMPLATE err])"
proof (induction sfxs arbitrary: s)
  case Nil
  then show ?case by simp
next
  case (Cons sfx rest)
  have T: "TRANSFER arg"
  proof (rule ccontr)
    assume "\<not> TRANSFER arg"
    from copy_categories_no_transfer[OF this]
    have "copy_categories os arg exper (sfx # rest) s = (True, s)" .
    with Cons.prems show False by simp
  qed
  obtain r w1 where c: "copytree os (merfish_path (source (CONFIG s)) sfx exper)
      (merfish_path (target (CONFIG s)) sfx exper) (world s) = (r, w1)"
    by (cases "copytree os (merfish_path (source (CONFIG s)) sfx exper)
      (merfish_path (target (CONFIG s)) sfx exper) (world s)")
  show ?case
  proof (cases r)
    case None
    with Cons.prems T c
    have "copy_categories os arg exper rest
            (s\<lparr>world := w1, calls := calls s @ [copied (CONFIG s) exper sfx]\<rparr>) = (False, s')"
      by (simp add: Let_def copied_def)
    from Cons.IH[OF this] obtain pre x post err where
      h: "rest = pre @ x # post"
         "calls s' = calls s @ [copied (CONFIG s) exper sfx] @ map (copied (CONFIG s) exper) pre @
            [Copytree (merfish_path (source (CONFIG s)) x exper)
               (merfish_path (target (CONFIG s)) x exper) (Some err)]"
         "ERRORS s' = ERRORS s @
            [''Could not copy '' @ merfish_path (source (CONFIG s)) x exper @ ''/'' @ exper @
             NL @ TEMPLATE err]"
      and f: "DELETED s' = DELETED s" "TRANSFERRED s' = TRANSFERRED s" "CONFIG s' = CONFIG s"
      by auto
    from h have "sfx # rest = (sfx # pre) @ x # post \<and>
        calls s' = calls s @ map (copied (CONFIG s) exper) (sfx # pre) @
            [Copytree (merfish_path (source (CONFIG s)) x exper)
               (merfish_path (target (CONFIG s)) x exper) (Some err)] \<and>
        ERRORS s' = ERRORS s @
            [''Could not copy '' @ merfish_path (source (CONFIG s)) x exper @ ''/'' @ exper @
             NL @ TEMPLATE err]" by simp
    with T f show ?thesis by blast
  next
    case (Some err)
    with Cons.prems T c have
      "sfx # rest = [] @ sfx # rest \<and>
       calls s' = calls s @ map (copied (CONFIG s) exper) [] @
          [Copytree (merfish_path (source (CONFIG s)) sfx exper)
             (merfish_path (target (CONFIG s)) sfx exper) (Some err)] \<and>
        ERRORS s' = ERRORS s @
          [''Could not copy '' @ merfish_path (source (CONFIG s)) sfx exper @ ''/'' @ exper @
           NL @ TEMPLATE err]"
      and "DELETED s' = DELETED s \<and> TRANSFERRED s' = TRANSFERRED s \<and> CONFIG s' = CONFIG s"
      by (auto simp: Let_def)
    with T show ?thesis by blast
  qed
qed

lemma delete_directory_frame:
  "delete_directory os arg p s = (r, s') \<Longrightarrow>
     TRANSFERRED s' = TRANSFERRED s \<and> CONFIG s' = CONFIG s \<and>
     (\<exists>new. calls s' = calls s @ new \<and> (\<forall>c\<in>set new. is_removal c))"
  by (auto simp: delete_directory_def Let_def split: if_splits prod.splits option.splits)

lemma delete_categories_frame:
  "delete_categories os arg exper sfxs s = (r, s') \<Longrightarrow>
     TRANSFERRED s' = TRANSFERRED s \<and> CONFIG s' = CONFIG s \<and>
     (\<exists>new. calls s' = calls s @ new \<and> (\<forall>c\<in>set new. is_removal c))"
proof (induction sfxs arbitrary: s)
  case Nil
  then show ?case by simp
next
  case (Cons sfx rest)
  obtain r1 s1 where d: "delete_directory os arg (merfish_path (source (CONFIG s)) sfx exper) s = (r1, s1)"
    by (cases "delete_directory os arg (merfish_path (source (CONFIG s)) sfx exper) s")
  from delete_directory_frame[OF d] obtain n1 where
    f1: "TRANSFERRED s1 = TRANSFERRED s" "CONFIG s1 = CONFIG s" "calls s1 = calls s @ n1"
        "\<forall>c\<in>set n1. is_removal c" by blast
  show ?case
  proof (cases "r1 = Inr True")
    case True
    with Cons.prems d have "delete_categories os arg exper rest s1 = (r, s')" by simp
    from Cons.IH[OF this] obtain n2 where
      f2: "TRANSFERRED s' = TRANSFERRED s1" "CONFIG s' = CONFIG s1" "calls s' = calls s1 @ n2"
          "\<forall>c\<in>set n2. is_removal c" by blast
    from f1 f2 have "calls s' = calls s @ (n1 @ n2) \<and> (\<forall>c\<in>set (n1 @ n2). is_removal c)" by auto
    with f1 f2 show ?thesis by metis
  next
    case False
    with Cons.prems d have "s' = s1" by (auto split: sum.splits bool.splits)
    with f1 show ?thesis by blast
  qed
qed

lemma delete_experiment_frame:
  assumes "delete_experiment os arg exper s = (r, s')"
  shows "TRANSFERRED s' = TRANSFERRED s @ [exper] \<and> CONFIG s' = CONFIG s \<and>
     (\<exists>new. calls s' = calls s @ Delete_experiment exper # new \<and> (\<forall>c\<in>set new. is_removal c))"
proof -
  define s0 where "s0 = s\<lparr>TRANSFERRED := TRANSFERRED s @ [exper],
                 calls := calls s @ [Delete_experiment exper]\<rparr>"
  obtain r1 s1 where d1: "delete_categories os arg exper SUFFIX s0 = (r1, s1)"
    by (cases "delete_categories os arg exper SUFFIX s0")
  from delete_categories_frame[OF d1] obtain n1 where
    f1: "TRANSFERRED s1 = TRANSFERRED s0" "CONFIG s1 = CONFIG s0" "calls s1 = calls s0 @ n1"
        "\<forall>c\<in>set n1. is_removal c" by blast
  have g1: "TRANSFERRED s1 = TRANSFERRED s @ [exper]" "CONFIG s1 = CONFIG s"
     "calls s1 = calls s @ Delete_experiment exper # n1"
    using f1 by (simp_all add: s0_def)
  obtain r2 s2 where d2: "delete_directory os arg (secondary (CONFIG s1) @ ''/'' @ exper) s1 = (r2, s2)"
    by (cases "delete_directory os arg (secondary (CONFIG s1) @ ''/'' @ exper) s1")
  from delete_directory_frame[OF d2] obtain n2 where
    f2: "TRANSFERRED s2 = TRANSFERRED s1" "CONFIG s2 = CONFIG s1" "calls s2 = calls s1 @ n2"
        "\<forall>c\<in>set n2. is_removal c" by blast
  have g2: "TRANSFERRED s2 = TRANSFERRED s @ [exper]" "CONFIG s2 = CONFIG s"
     "calls s2 = calls s @ Delete_experiment exper # (n1 @ n2)" "\<forall>c\<in>set (n1 @ n2). is_removal c"
    using f1 f2 g1 by auto
  from assms d1 d2 have
    "s' = s1 \<or> s' = s1\<lparr>ERRORS := ERRORS s1 @ [incomplete_msg exper]\<rparr> \<or>
     s' = s2 \<or> s' = s2\<lparr>ERRORS := ERRORS s2 @ [incomplete_msg exper]\<rparr>"
    unfolding delete_experiment_def s0_def[symmetric] Let_def
    by (auto split: sum.splits if_splits)
  then show ?thesis
  proof (elim disjE)
    assume "s' = s1" with g1 f1(4) show ?thesis by simp
  next
    assume "s' = s1\<lparr>ERRORS := ERRORS s1 @ [incomplete_msg exper]\<rparr>"
    with g1 f1(4) show ?thesis by simp
  next
    assume "s' = s2" with g2 show ?thesis by blast
  next
    assume "s' = s2\<lparr>ERRORS := ERRORS s2 @ [incomplete_msg exper]\<rparr>"
    with g2 have "TRANSFERRED s' = TRANSFERRED s @ [exper]" "CONFIG s' = CONFIG s"
      "calls s' = calls s @ Delete_experiment exper # (n1 @ n2)" by simp_all
    with g2(4) show ?thesis by blast
  qed
qed



lemma toy_state_simps:
  "calls (toy_state w) = []" "ERRORS (toy_state w) = []" "DELETED (toy_state w) = []"
  "TRANSFERRED (toy_state w) = []" "CONFIG (toy_state w) = toy_config" "world (toy_state w) = w"
  by (simp_all add: toy_state_def)


section \<open>How the deletion engine ends\<close>




lemma delete_experiment_after_categories:
  assumes "delete_categories os arg exper SUFFIX
           (s\<lparr>TRANSFERRED := TRANSFERRED s @ [exper],
              calls := calls s @ [Delete_experiment exper]\<rparr>) = (Inr True, s3)"
  shows "delete_experiment os arg exper s =
     (if \<not> path_exists os (secondary (CONFIG s3) @ ''/'' @ exper) (world s3) then
        (None, s3\<lparr>ERRORS := ERRORS s3 @ [incomplete_msg exper]\<rparr>)
      else
        (case delete_directory os arg (secondary (CONFIG s3) @ ''/'' @ exper) s3 of
           (Inl err, s4) \<Rightarrow> (Some err, s4)
         | (Inr False, s4) \<Rightarrow> (None, s4\<lparr>ERRORS := ERRORS s4 @ [incomplete_msg exper]\<rparr>)
         | (Inr True, s4) \<Rightarrow> (None, s4)))"
  unfolding delete_experiment_def Let_def assms
  by (auto split: sum.splits bool.splits prod.splits)

lemma delete_directory_lingering:
  assumes "DELETE arg" and "rmtree os p (world s) = (None, w1)" and "path_exists os p w1"
    and "path_exists os p (snd (rmdir os p w1))"
  shows "fst (delete_directory os arg p s) = Inl NameError_ERROR"
  using assms by (auto simp: delete_directory_def Let_def split: prod.splits option.splits)

text \<open>
  The only exception that leaves \<^verbatim>\<open>delete_directory\<close>, and with it the processing of
  an experiment and the loop over the experiments, is the one of line 129, in real-delete
  mode: every exception of a library call is caught where the call is made.
\<close>

lemma delete_directory_escape:
  "delete_directory os arg p s = (Inl err, s') \<Longrightarrow> err = NameError_ERROR \<and> DELETE arg"
  by (auto simp: delete_directory_def Let_def split: if_splits prod.splits option.splits)

lemma delete_categories_escape:
  "delete_categories os arg exper sfxs s = (Inl err, s') \<Longrightarrow> err = NameError_ERROR \<and> DELETE arg"
proof (induction sfxs arbitrary: s)
  case Nil
  then show ?case by simp
next
  case (Cons sfx rest)
  obtain r1 t where d: "delete_directory os arg (merfish_path (source (CONFIG s)) sfx exper) s = (r1, t)"
    by (cases "delete_directory os arg (merfish_path (source (CONFIG s)) sfx exper) s")
  show ?case
  proof (cases r1)
    case (Inl e)
    with Cons.prems d have "e = err" by simp
    with Inl d delete_directory_escape show ?thesis by blast
  next
    case (Inr b)
    with Cons.prems d have "b" "delete_categories os arg exper rest t = (Inl err, s')"
      by (auto split: bool.splits)
    with Cons.IH show ?thesis by blast
  qed
qed

lemma delete_experiment_escape:
  assumes "delete_experiment os arg exper s = (Some err, s')"
  shows "err = NameError_ERROR \<and> DELETE arg"
proof -
  define s0 where "s0 = s\<lparr>TRANSFERRED := TRANSFERRED s @ [exper],
                 calls := calls s @ [Delete_experiment exper]\<rparr>"
  obtain r1 s1 where d1: "delete_categories os arg exper SUFFIX s0 = (r1, s1)"
    by (cases "delete_categories os arg exper SUFFIX s0")
  obtain r2 s2 where d2:
    "delete_directory os arg (secondary (CONFIG s1) @ ''/'' @ exper) s1 = (r2, s2)"
    by (cases "delete_directory os arg (secondary (CONFIG s1) @ ''/'' @ exper) s1")
  from assms d1 d2 have "r1 = Inl err \<or> r2 = Inl err"
    unfolding delete_experiment_def s0_def[symmetric] Let_def
    by (auto split: sum.splits if_splits)
  with d1 d2 delete_categories_escape delete_directory_escape show ?thesis
    by blast
qed

lemma handle_single_experiment_escape:
  assumes "handle_single_experiment os arg exper s = (Some err, s')"
  shows "err = NameError_ERROR \<and> DELETE arg"
proof -
  from assms obtain s2 where "delete_experiment os arg exper s2 = (Some err, s')"
    by (auto simp: handle_single_experiment_def Let_def split: if_splits prod.splits bool.splits)
  then show ?thesis by (rule delete_experiment_escape)
qed

lemma handle_each_escape:
  "handle_each os arg dirs s = (Some err, s') \<Longrightarrow> err = NameError_ERROR \<and> DELETE arg"
proof (induction dirs arbitrary: s)
  case Nil
  then show ?case by simp
next
  case (Cons edir rest)
  obtain r1 t where h: "handle_single_experiment os arg edir s = (r1, t)"
    by (cases "handle_single_experiment os arg edir s")
  show ?case
  proof (cases r1)
    case None
    with Cons.prems h have "handle_each os arg rest t = (Some err, s')" by simp
    with Cons.IH show ?thesis by blast
  next
    case (Some e)
    with Cons.prems h have "e = err" by simp
    with Some h handle_single_experiment_escape show ?thesis by blast
  qed
qed

section \<open>Completeness checker: the age threshold\<close>

text \<open>
  What the checker computes: it answers ready exactly when the sentinel is a regular file
  and the age, cut down to whole seconds, exceeds 300, that is, when at least 301 seconds
  have passed; the minimum age held by the configuration plays no part.
\<close>

lemma experiment_complete_ready_iff:
  "fst (experiment_complete os exper s) =
     (path_isfile os (sentinel_path (CONFIG s) exper) (world s) \<and>
      300 < py_int (time_now os (world s)
                     - getmtime os (sentinel_path (CONFIG s) exper) (world s))) \<and>
   fst (experiment_complete os exper s) =
     (path_isfile os (sentinel_path (CONFIG s) exper) (world s) \<and>
      301 \<le> time_now os (world s) - getmtime os (sentinel_path (CONFIG s) exper) (world s)) \<and>
   fst (experiment_complete os exper (s\<lparr>CONFIG := (CONFIG s)\<lparr>minimum_age := m\<rparr>\<rparr>)) =
     fst (experiment_complete os exper s)"
proof -
  have ready: "fst (experiment_complete os exper t) =
     (path_isfile os (sentinel_path (CONFIG t) exper) (world t) \<and>
      300 < py_int (time_now os (world t)
                     - getmtime os (sentinel_path (CONFIG t) exper) (world t)))"
    for t :: "'a state"
    by (auto simp: experiment_complete_def Let_def)
  have same: "sentinel_path ((CONFIG s)\<lparr>minimum_age := m\<rparr>) exper = sentinel_path (CONFIG s) exper"
    by (simp add: sentinel_path_def)
  show ?thesis
    using ready[of s] ready[of "s\<lparr>CONFIG := (CONFIG s)\<lparr>minimum_age := m\<rparr>\<rparr>"] same
    by (simp add: py_int_gt_300)
qed

text \<open>
  Claim C3 says that the checker answers ready if and only if the sentinel exists and its
  last-modified age is strictly greater than 300 seconds, whatever minimum age the
  configuration holds; the program's docstring asks for a sentinel that is at least 5
  minutes old. The program cuts the age down to whole seconds and then rejects every age
  up to and including 300. Evaluated on a sentinel that is 300.5 seconds old: the file is
  there, more than 300 seconds have passed, and the answer is not-ready.
\<close>

theorem experiment_complete_half_second_not_ready:
  "path_isfile (toy_os []) (sentinel_path toy_config ''E1'') toy_world_young \<and>
   300 < time_now (toy_os []) toy_world_young
           - getmtime (toy_os []) (sentinel_path toy_config ''E1'') toy_world_young \<and>
   \<not> fst (experiment_complete (toy_os []) ''E1'' (toy_state toy_world_young))"
  by (simp add: experiment_complete_def toy_os_def toy_state_def toy_world_young_def
      toy_world0_def toy_config_def sentinel_path_def py_int_def)

section \<open>Orchestrator: an experiment with a missing category folder\<close>

text \<open>
  Claim C4: when the orchestrator's first gate passes and at least one of the three
  category folders of the experiment does not exist under the source root, nothing
  happens: no copy, no deletion, nothing appended to the transferred, deleted or error
  lists. The whole state, the world included, is returned as it was.
\<close>

theorem handle_single_experiment_missing_folder:
  assumes "path_exists os (secondary (CONFIG s)) (world s)"
    and "sfx \<in> set SUFFIX"
    and "\<not> path_exists os (merfish_path (source (CONFIG s)) sfx exper) (world s)"
  shows "handle_single_experiment os arg exper s = (None, s)"
  using assms by (auto simp: handle_single_experiment_def check_missing_iff)

theorem handle_single_experiment_missing_folder_witness:
  "path_exists (toy_os []) (secondary (CONFIG (toy_state toy_world_missing)))
     (world (toy_state toy_world_missing)) \<and>
   ''raw_data'' \<in> set SUFFIX \<and>
   \<not> path_exists (toy_os [])
       (merfish_path (source (CONFIG (toy_state toy_world_missing))) ''raw_data'' ''E1'')
       (world (toy_state toy_world_missing)) \<and>
   handle_single_experiment (toy_os []) (flags True True) ''E1'' (toy_state toy_world_missing)
     = (None, toy_state toy_world_missing)"
proof -
  have h1: "path_exists (toy_os []) (secondary (CONFIG (toy_state toy_world_missing)))
     (world (toy_state toy_world_missing))"
    by code_simp
  have h2: "''raw_data'' \<in> set SUFFIX"
    by (simp add: SUFFIX_def)
  have h3: "\<not> path_exists (toy_os [])
       (merfish_path (source (CONFIG (toy_state toy_world_missing))) ''raw_data'' ''E1'')
       (world (toy_state toy_world_missing))"
    by code_simp
  from handle_single_experiment_missing_folder[OF h1 h2 h3, where arg = "flags True True"]
    h1 h2 h3
  show ?thesis by blast
qed

section \<open>Orchestrator: deletion waits for the copies\<close>



section \<open>Orchestrator: simulated transfer\<close>

text \<open>
  Claim C5: when an experiment passes the gates (first gate, all three category folders
  present, completeness checker ready) while the transfer flag is off, processing it
  appends its name to the transferred list and makes no copy call: the deletion engine
  starts from the state the completeness checker returned, whose world is the initial one.
\<close>

theorem simulated_transfer_copies_nothing:
  assumes "\<not> TRANSFER arg"
    and "path_exists os (secondary (CONFIG s)) (world s)"
    and "\<forall>sfx\<in>set SUFFIX. path_exists os (merfish_path (source (CONFIG s)) sfx exper) (world s)"
    and "experiment_complete os exper s = (True, s1)"
    and "handle_single_experiment os arg exper s = (r, s')"
  shows "TRANSFERRED s' = TRANSFERRED s @ [exper] \<and>
         (\<exists>new. calls s' = calls s @ new \<and> (\<forall>c\<in>set new. \<not> is_copy c)) \<and>
         world s1 = world s \<and>
         delete_experiment os arg exper s1 = (r, s')"
proof -
  from assms(3) have nm: "\<not> check_missing os exper s SUFFIX False"
    by (simp add: check_missing_iff)
  from assms(1,2,4,5) nm have d: "delete_experiment os arg exper s1 = (r, s')"
    by (simp add: handle_single_experiment_def copy_categories_no_transfer)
  note f = experiment_complete_frame[OF assms(4)]
  from delete_experiment_frame[OF d] obtain new where
    n: "TRANSFERRED s' = TRANSFERRED s1 @ [exper]"
       "calls s' = calls s1 @ Delete_experiment exper # new" "\<forall>c\<in>set new. is_removal c"
    by blast
  have "\<not> is_copy c" if "is_removal c" for c
    using that by (cases c) simp_all
  with n(3) have "\<forall>c\<in>set (Delete_experiment exper # new). \<not> is_copy c"
    by simp
  with n(2) f have "\<exists>new. calls s' = calls s @ new \<and> (\<forall>c\<in>set new. \<not> is_copy c)"
    by metis
  with n(1) f d show ?thesis by simp
qed

theorem simulated_transfer_copies_nothing_witness:
  "\<not> TRANSFER (flags False True) \<and>
   path_exists (toy_os []) (secondary (CONFIG (toy_state toy_world0))) (world (toy_state toy_world0)) \<and>
   fst (experiment_complete (toy_os []) ''E1'' (toy_state toy_world0)) \<and>
   TRANSFERRED (snd (handle_single_experiment (toy_os []) (flags False True) ''E1''
                       (toy_state toy_world0))) = [''E1''] \<and>
   filter is_copy (calls (snd (handle_single_experiment (toy_os []) (flags False True) ''E1''
                                 (toy_state toy_world0)))) = []"
proof -
  let ?s = "toy_state toy_world0"
  let ?H = "handle_single_experiment (toy_os []) (flags False True) ''E1'' ?s"
  let ?E = "experiment_complete (toy_os []) ''E1'' ?s"
  have h1: "\<not> TRANSFER (flags False True)"
    by (simp add: flags_def)
  have h2: "path_exists (toy_os []) (secondary (CONFIG ?s)) (world ?s)"
    by code_simp
  have h3: "\<forall>sfx\<in>set SUFFIX. path_exists (toy_os [])
      (merfish_path (source (CONFIG ?s)) sfx ''E1'') (world ?s)"
    by code_simp
  have h4: "fst ?E"
    by code_simp
  then have h4': "?E = (True, snd ?E)"
    by (cases ?E) simp
  have h5: "?H = (fst ?H, snd ?H)"
    by simp
  from simulated_transfer_copies_nothing[OF h1 h2 h3 h4' h5]
  have "TRANSFERRED (snd ?H) = [''E1'']" "filter is_copy (calls (snd ?H)) = []"
    by (auto simp: toy_state_simps filter_empty_conv)
  with h1 h2 h4 show ?thesis by simp
qed

section \<open>Orchestrator: the transferred list\<close>

text \<open>
  Claim C10: the name of an experiment is appended to the transferred list exactly when
  the deletion phase is entered for it. The orchestrator enters the deletion phase (line
  197) exactly when the first gate passes, all three category folders exist, the
  completeness checker answers ready and the copy loop ends with \<^verbatim>\<open>ok_to_delete\<close> true.
  In that case the run is the run of \<^verbatim>\<open>delete_experiment\<close> from the state after the
  copy loop, whose transferred list is still the initial one, and it ends, returning or
  raising, with the name appended. In every other case the processing returns with the
  transferred and deleted lists as they were and with copy calls only. In particular,
  with the transfer flag on, a run in which a copy raises does not enter deletion and
  leaves the transferred list as it was, whether or not earlier copies succeeded.
\<close>

theorem transferred_iff_deletion_entered:
  fixes os :: "'w os" and s :: "'w state"
  assumes run: "handle_single_experiment os arg exper s = (r, s')"
    and chk: "experiment_complete os exper s = (ready, s1)"
    and cpy: "copy_categories os arg exper SUFFIX s1 = (ok_to_delete, s2)"
  defines "entered \<equiv>
      path_exists os (secondary (CONFIG s)) (world s) \<and>
      (\<forall>sfx\<in>set SUFFIX. path_exists os (merfish_path (source (CONFIG s)) sfx exper) (world s)) \<and>
      ready \<and> ok_to_delete"
  shows "\<exists>new. calls s' = calls s @ new \<and>
     (entered \<longrightarrow>
        delete_experiment os arg exper s2 = (r, s') \<and>
        TRANSFERRED s2 = TRANSFERRED s \<and>
        TRANSFERRED s' = TRANSFERRED s @ [exper] \<and>
        Delete_experiment exper \<in> set new \<and>
        (\<forall>src tgt err. Copytree src tgt (Some err) \<notin> set new)) \<and>
     (\<not> entered \<longrightarrow>
        r = None \<and> TRANSFERRED s' = TRANSFERRED s \<and> DELETED s' = DELETED s \<and>
        (\<forall>c\<in>set new. is_copy c)) \<and>
     (TRANSFER arg \<longrightarrow> (\<exists>src tgt err. Copytree src tgt (Some err) \<in> set new) \<longrightarrow>
        \<not> entered \<and> TRANSFERRED s' = TRANSFERRED s)"
proof -
  note f1 = experiment_complete_frame[OF chk]
  have gates: "\<not> check_missing os exper s SUFFIX False \<longleftrightarrow>
      (\<forall>sfx\<in>set SUFFIX. path_exists os (merfish_path (source (CONFIG s)) sfx exper) (world s))"
    by (simp add: check_missing_iff)
  have main: "\<exists>new. calls s' = calls s @ new \<and>
     (entered \<longrightarrow>
        delete_experiment os arg exper s2 = (r, s') \<and>
        TRANSFERRED s2 = TRANSFERRED s \<and>
        TRANSFERRED s' = TRANSFERRED s @ [exper] \<and>
        Delete_experiment exper \<in> set new \<and>
        (\<forall>src tgt err. Copytree src tgt (Some err) \<notin> set new)) \<and>
     (\<not> entered \<longrightarrow>
        r = None \<and> TRANSFERRED s' = TRANSFERRED s \<and> DELETED s' = DELETED s \<and>
        (\<forall>c\<in>set new. is_copy c))"
  proof (cases entered)
    case True
    then have e: "path_exists os (secondary (CONFIG s)) (world s)"
      "\<not> check_missing os exper s SUFFIX False" "ready" "ok_to_delete"
      by (simp_all add: entered_def gates)
    from run chk cpy e have d: "delete_experiment os arg exper s2 = (r, s')"
      by (simp add: handle_single_experiment_def)
    from cpy e(4) have c': "copy_categories os arg exper SUFFIX s1 = (True, s2)" by simp
    note f2 = copy_categories_True[OF c']
    from delete_experiment_frame[OF d] obtain rem where
      n: "TRANSFERRED s' = TRANSFERRED s2 @ [exper]"
         "calls s' = calls s2 @ Delete_experiment exper # rem" "\<forall>c\<in>set rem. is_removal c"
      by blast
    define nw where "nw = (if TRANSFER arg then map (copied (CONFIG s1) exper) SUFFIX else []) @
                    Delete_experiment exper # rem"
    have c: "calls s' = calls s @ nw"
      using n(2) f2 f1 by (simp add: nw_def)
    have nofail: "Copytree src tgt (Some e) \<notin> set nw" for src tgt e
      using n(3) by (auto simp: copied_def nw_def)
    have ent: "Delete_experiment exper \<in> set nw"
      by (simp add: nw_def)
    have t2: "TRANSFERRED s2 = TRANSFERRED s"
      using f2 f1 by simp
    from True d t2 n(1) c nofail ent show ?thesis
      by (intro exI[of _ nw]) simp
  next
    case False
    show ?thesis
    proof (cases "path_exists os (secondary (CONFIG s)) (world s) \<and>
                  \<not> check_missing os exper s SUFFIX False \<and> ready")
      case stop: False
      with run chk f1 have "r = None \<and> TRANSFERRED s' = TRANSFERRED s \<and> DELETED s' = DELETED s \<and>
          calls s' = calls s @ []"
        by (auto simp: handle_single_experiment_def Let_def split: if_splits)
      with False show ?thesis by (intro exI[of _ "[]"]) simp
    next
      case True
      with False have nok: "\<not> ok_to_delete"
        by (simp add: entered_def gates)
      with cpy have c': "copy_categories os arg exper SUFFIX s1 = (False, s2)" by simp
      from run chk cpy True nok have rs: "r = None" "s' = s2"
        by (simp_all add: handle_single_experiment_def)
      from copy_categories_False[OF c'] obtain pre sfx post err where
        k: "DELETED s2 = DELETED s1" "TRANSFERRED s2 = TRANSFERRED s1"
           "calls s2 = calls s1 @ map (copied (CONFIG s1) exper) pre @
              [Copytree (merfish_path (source (CONFIG s1)) sfx exper)
                 (merfish_path (target (CONFIG s1)) sfx exper) (Some err)]"
        by blast
      define nw where "nw = map (copied (CONFIG s1) exper) pre @
              [Copytree (merfish_path (source (CONFIG s1)) sfx exper)
                 (merfish_path (target (CONFIG s1)) sfx exper) (Some err)]"
      have "\<forall>c\<in>set nw. is_copy c"
        by (auto simp: nw_def copied_def)
      moreover have "calls s' = calls s @ nw"
        using k(3) rs f1 by (simp add: nw_def)
      ultimately show ?thesis
        using False rs k f1 by (intro exI[of _ nw]) simp
    qed
  qed
  then obtain new where n: "calls s' = calls s @ new"
     "entered \<longrightarrow>
        delete_experiment os arg exper s2 = (r, s') \<and>
        TRANSFERRED s2 = TRANSFERRED s \<and>
        TRANSFERRED s' = TRANSFERRED s @ [exper] \<and>
        Delete_experiment exper \<in> set new \<and>
        (\<forall>src tgt err. Copytree src tgt (Some err) \<notin> set new)"
     "\<not> entered \<longrightarrow>
        r = None \<and> TRANSFERRED s' = TRANSFERRED s \<and> DELETED s' = DELETED s \<and>
        (\<forall>c\<in>set new. is_copy c)"
    by blast
  from n(2,3) have "TRANSFER arg \<longrightarrow> (\<exists>src tgt err. Copytree src tgt (Some err) \<in> set new) \<longrightarrow>
        \<not> entered \<and> TRANSFERRED s' = TRANSFERRED s"
    by blast
  with n show ?thesis by blast
qed

theorem transferred_iff_deletion_entered_witness:
  "TRANSFER (flags True True) \<and>
   TRANSFERRED (snd (handle_single_experiment (toy_os []) (flags True True) ''E1''
                       (toy_state toy_world0))) = [''E1''] \<and>
   Delete_experiment ''E1''
     \<in> set (calls (snd (handle_single_experiment (toy_os []) (flags True True) ''E1''
                          (toy_state toy_world0)))) \<and>
   calls (snd (handle_single_experiment (toy_os []) (flags True True) ''E1''
                 (toy_state toy_world_copy_fails))) =
     [Copytree ''/s/merfish_analysis/E1'' ''/t/merfish_analysis/E1'' None,
      Copytree ''/s/merfish_output/E1'' ''/t/merfish_output/E1''
        (Some (Exn ''OSError'' ''(5, Input/output error)''))] \<and>
   TRANSFERRED (snd (handle_single_experiment (toy_os []) (flags True True) ''E1''
                       (toy_state toy_world_copy_fails))) = []"
proof -
  let ?os = "toy_os []" and ?arg = "flags True True"
  have T: "TRANSFER ?arg"
    by (simp add: flags_def)
  \<comment> \<open>all copies return: deletion is entered\<close>
  let ?sb = "toy_state toy_world0"
  let ?B = "handle_single_experiment ?os ?arg ''E1'' ?sb"
  let ?EB = "experiment_complete ?os ''E1'' ?sb"
  let ?CB = "copy_categories ?os ?arg ''E1'' SUFFIX (snd ?EB)"
  have b1: "?B = (fst ?B, snd ?B)" and b2: "?EB = (fst ?EB, snd ?EB)"
    and b3: "?CB = (fst ?CB, snd ?CB)"
    by simp_all
  have g1: "path_exists ?os (secondary (CONFIG ?sb)) (world ?sb)"
    by code_simp
  have g2: "\<forall>sfx\<in>set SUFFIX. path_exists ?os (merfish_path (source (CONFIG ?sb)) sfx ''E1'') (world ?sb)"
    by code_simp
  have g3: "fst ?EB"
    by code_simp
  have g4: "fst ?CB"
    by code_simp
  from transferred_iff_deletion_entered[OF b1 b2 b3] g1 g2 g3 g4
  have b: "TRANSFERRED (snd ?B) = [''E1'']" "Delete_experiment ''E1'' \<in> set (calls (snd ?B))"
    by (auto simp: toy_state_simps)
  \<comment> \<open>the second copy raises: deletion is not entered\<close>
  let ?sa = "toy_state toy_world_copy_fails"
  let ?A = "handle_single_experiment ?os ?arg ''E1'' ?sa"
  let ?EA = "experiment_complete ?os ''E1'' ?sa"
  let ?CA = "copy_categories ?os ?arg ''E1'' SUFFIX (snd ?EA)"
  have a1: "?A = (fst ?A, snd ?A)" and a2: "?EA = (fst ?EA, snd ?EA)"
    and a3: "?CA = (fst ?CA, snd ?CA)"
    by simp_all
  have c: "calls (snd ?A) =
     [Copytree ''/s/merfish_analysis/E1'' ''/t/merfish_analysis/E1'' None,
      Copytree ''/s/merfish_output/E1'' ''/t/merfish_output/E1''
        (Some (Exn ''OSError'' ''(5, Input/output error)''))]"
    by code_simp
  from transferred_iff_deletion_entered[OF a1 a2 a3] T c have a: "TRANSFERRED (snd ?A) = []"
    by (auto simp: toy_state_simps)
  from T b c a show ?thesis by simp
qed

section \<open>Orchestrator: the first gate\<close>

text \<open>
  Claim C2 says that the first gate checks the configured target root. The program reads
  \<^verbatim>\<open>CONFIG['secondary']\<close> into the variable \<^verbatim>\<open>tgt\<close> that it tests and reports as
  the "target path". Evaluated on a world without the target root \<^verbatim>\<open>/t\<close>, with transfer
  on and deletion simulated: no error is recorded, the three categories are copied and the
  deletion engine is entered. Evaluated on a world with the target root but without the
  secondary root \<^verbatim>\<open>/b\<close>: the error "Could not find target path /b" is recorded and
  nothing else happens.
\<close>

theorem handle_single_experiment_gate_reads_secondary:
  "\<not> path_exists (toy_os []) (target toy_config) toy_world_no_target \<and>
   handle_single_experiment (toy_os []) (flags True False) ''E1'' (toy_state toy_world_no_target)
     = (None,
        \<lparr>world = toy_world_no_target
            \<lparr>present := [''/t/merfish_raw_data/E1'', ''/t/merfish_output/E1'',
                         ''/t/merfish_analysis/E1''] @ toy_paths\<rparr>,
         CONFIG = toy_config\<lparr>minimum_age := Some 300\<rparr>,
         ERRORS = [],
         DELETED = [''/s/merfish_analysis/E1'', ''/s/merfish_output/E1'',
                    ''/s/merfish_raw_data/E1'', ''/b/E1''],
         TRANSFERRED = [''E1''],
         calls = [Copytree ''/s/merfish_analysis/E1'' ''/t/merfish_analysis/E1'' None,
                  Copytree ''/s/merfish_output/E1'' ''/t/merfish_output/E1'' None,
                  Copytree ''/s/merfish_raw_data/E1'' ''/t/merfish_raw_data/E1'' None,
                  Delete_experiment ''E1'']\<rparr>) \<and>
   path_exists (toy_os []) (target toy_config) toy_world_no_secondary_root \<and>
   handle_single_experiment (toy_os []) (flags True False) ''E1''
       (toy_state toy_world_no_secondary_root)
     = (None, (toy_state toy_world_no_secondary_root)\<lparr>ERRORS := [''Could not find target path /b'']\<rparr>)"
  by code_simp

section \<open>Deletion engine: fail-fast and the final error\<close>



section \<open>Deletion engine: an absent secondary copy\<close>

text \<open>
  Claim C7: when all three category deletions succeeded and the path
  \<^verbatim>\<open>secondary/<name>\<close> does not exist at that point, \<^verbatim>\<open>delete_experiment\<close> returns the
  state reached after the third category with one error appended (the incomplete error);
  the call history, the world and the deleted list are those reached after the third
  category, so no removal of the secondary path is attempted.
\<close>

theorem delete_experiment_secondary_absent:
  assumes "delete_categories os arg exper SUFFIX
             (s\<lparr>TRANSFERRED := TRANSFERRED s @ [exper],
                calls := calls s @ [Delete_experiment exper]\<rparr>) = (Inr True, s3)"
    and "\<not> path_exists os (secondary (CONFIG s3) @ ''/'' @ exper) (world s3)"
  shows "delete_experiment os arg exper s =
           (None, s3\<lparr>ERRORS := ERRORS s3 @ [incomplete_msg exper]\<rparr>) \<and>
         calls (snd (delete_experiment os arg exper s)) = calls s3 \<and>
         world (snd (delete_experiment os arg exper s)) = world s3 \<and>
         DELETED (snd (delete_experiment os arg exper s)) = DELETED s3"
  using delete_experiment_after_categories[OF assms(1)] assms(2) by simp

theorem delete_experiment_secondary_absent_witness:
  "fst (delete_categories (toy_os []) (flags True True) ''E1'' SUFFIX
          ((toy_state toy_world_no_secondary)
             \<lparr>TRANSFERRED := TRANSFERRED (toy_state toy_world_no_secondary) @ [''E1''],
              calls := calls (toy_state toy_world_no_secondary) @ [Delete_experiment ''E1'']\<rparr>))
     = Inr True \<and>
   fst (delete_experiment (toy_os []) (flags True True) ''E1'' (toy_state toy_world_no_secondary))
     = None \<and>
   ERRORS (snd (delete_experiment (toy_os []) (flags True True) ''E1''
                  (toy_state toy_world_no_secondary))) = [incomplete_msg ''E1''] \<and>
   calls (snd (delete_experiment (toy_os []) (flags True True) ''E1''
                 (toy_state toy_world_no_secondary))) =
     [Delete_experiment ''E1'',
      Rmtree ''/s/merfish_analysis/E1'' None,
      Rmtree ''/s/merfish_output/E1'' None,
      Rmtree ''/s/merfish_raw_data/E1'' None]"
proof -
  let ?s = "toy_state toy_world_no_secondary"
  let ?s0 = "?s\<lparr>TRANSFERRED := TRANSFERRED ?s @ [''E1''],
                calls := calls ?s @ [Delete_experiment ''E1'']\<rparr>"
  let ?D = "delete_categories (toy_os []) (flags True True) ''E1'' SUFFIX ?s0"
  have ok: "fst ?D = Inr True"
    by code_simp
  then have h1: "?D = (Inr True, snd ?D)"
    by (cases ?D) simp
  have h2: "\<not> path_exists (toy_os []) (secondary (CONFIG (snd ?D)) @ ''/'' @ ''E1'') (world (snd ?D))"
    by code_simp
  have e: "ERRORS (snd ?D) = []"
    by code_simp
  have c: "calls (snd ?D) =
     [Delete_experiment ''E1'',
      Rmtree ''/s/merfish_analysis/E1'' None,
      Rmtree ''/s/merfish_output/E1'' None,
      Rmtree ''/s/merfish_raw_data/E1'' None]"
    by code_simp
  from delete_experiment_secondary_absent[OF h1 h2] ok e c show ?thesis by simp
qed

section \<open>Deletion engine: a directory that stays\<close>

text \<open>
  Claim C8 says that a directory still present after tree removal and fallback gets an
  additional anomaly error and that deletion of the remaining categories goes on. The
  program's line 129 names the unbound \<^verbatim>\<open>ERROR\<close>, so it raises instead. Evaluated with
  real deletion on a world where the output folder of E1 stays: \<^verbatim>\<open>delete_experiment\<close>
  leaves by the uncaught \<^verbatim>\<open>NameError\<close>, the only error recorded is that of the failed
  \<^verbatim>\<open>os.rmdir\<close>, and neither the raw-data folder (still present) nor the secondary copy is
  touched.
\<close>

theorem delete_experiment_lingering_directory_raises:
  "fst (delete_experiment (toy_os [''/s/merfish_output/E1'']) (flags True True) ''E1''
          (toy_state toy_world0)) = Some NameError_ERROR \<and>
   ERRORS (snd (delete_experiment (toy_os [''/s/merfish_output/E1'']) (flags True True) ''E1''
                  (toy_state toy_world0))) =
     [''Could not rmdir delete /s/merfish_output/E1'' @ NL @
      TEMPLATE (Exn ''OSError'' ''(39, Directory not empty)'')] \<and>
   DELETED (snd (delete_experiment (toy_os [''/s/merfish_output/E1'']) (flags True True) ''E1''
                   (toy_state toy_world0))) = [''/s/merfish_analysis/E1''] \<and>
   calls (snd (delete_experiment (toy_os [''/s/merfish_output/E1'']) (flags True True) ''E1''
                 (toy_state toy_world0))) =
     [Delete_experiment ''E1'',
      Rmtree ''/s/merfish_analysis/E1'' None,
      Rmtree ''/s/merfish_output/E1'' None,
      Rmdir ''/s/merfish_output/E1'' (Some (Exn ''OSError'' ''(39, Directory not empty)''))] \<and>
   path_exists (toy_os [''/s/merfish_output/E1'']) ''/s/merfish_raw_data/E1''
     (world (snd (delete_experiment (toy_os [''/s/merfish_output/E1'']) (flags True True) ''E1''
                    (toy_state toy_world0))))"
  by code_simp

section \<open>Driver: the loop over the experiments\<close>

text \<open>
  Claim C9 says that an exception raised while one experiment is processed does not keep
  the remaining experiments from being processed. The program catches the exceptions of
  its library calls where they are made, but the exception of line 129 is caught
  nowhere, and the loop of lines 244 and 245 has no handler. Evaluated with real transfer
  and deletion on the listing E1, E2, where the output folder of E1 stays after its
  removal: the exception leaves the processing of E1 and ends the run in the state in
  which it was raised; no call is made for E2.
\<close>

theorem handle_each_stops_at_escaping_exception:
  "listdir (toy_os [''/s/merfish_output/E1'']) (source toy_config @ ''/merfish_output'') toy_world0
     = Inr [''E1'', ''E2''] \<and>
   fst (handle_single_experiment (toy_os [''/s/merfish_output/E1'']) (flags True True) ''E1''
          (toy_state toy_world0)) = Some NameError_ERROR \<and>
   handle_each (toy_os [''/s/merfish_output/E1'']) (flags True True) [''E1'', ''E2'']
       (toy_state toy_world0)
     = (Some NameError_ERROR,
        snd (handle_single_experiment (toy_os [''/s/merfish_output/E1'']) (flags True True) ''E1''
               (toy_state toy_world0))) \<and>
   calls (snd (handle_each (toy_os [''/s/merfish_output/E1'']) (flags True True) [''E1'', ''E2'']
                 (toy_state toy_world0))) =
     [Copytree ''/s/merfish_analysis/E1'' ''/t/merfish_analysis/E1'' None,
      Copytree ''/s/merfish_output/E1'' ''/t/merfish_output/E1'' None,
      Copytree ''/s/merfish_raw_data/E1'' ''/t/merfish_raw_data/E1'' None,
      Delete_experiment ''E1'',
      Rmtree ''/s/merfish_analysis/E1'' None,
      Rmtree ''/s/merfish_output/E1'' None,
      Rmdir ''/s/merfish_output/E1'' (Some (Exn ''OSError'' ''(39, Directory not empty)''))] \<and>
   TRANSFERRED (snd (handle_each (toy_os [''/s/merfish_output/E1'']) (flags True True)
                       [''E1'', ''E2''] (toy_state toy_world0))) = [''E1'']"
  by code_simp

text \<open>
  The whole run of \<^verbatim>\<open>process_experiments\<close> on that input: the listing succeeds, the
  exception escapes, and the run ends without the mail.
\<close>

lemma process_experiments_uncaught:
  "process_experiments (toy_os [''/s/merfish_output/E1'']) (flags True True) (toy_state toy_world0)
     = (Uncaught NameError_ERROR,
        snd (handle_single_experiment (toy_os [''/s/merfish_output/E1'']) (flags True True) ''E1''
               (toy_state toy_world0)))"
  by code_simp

end
